theory Spec2Isabelle
  imports Main "HOL-Library.Word"
begin

unbundle bit_operations_syntax

section \<open>Data model of lib/util/sigquit.c\<close>

text \<open>
  The file under study installs a SIGQUIT handler, remaps the quit keystroke of the
  controlling terminal to Ctrl+Q, and registers an exit hook which puts the terminal back.
  Everything it does goes through the C library: \<^verbatim>\<open>sigaction\<close>, \<^verbatim>\<open>signal\<close>,
  \<^verbatim>\<open>tcgetattr\<close>, \<^verbatim>\<open>tcsetattr\<close>, \<^verbatim>\<open>atexit\<close>, \<^verbatim>\<open>close\<close>, and the repository's own
  \<^verbatim>\<open>ttyfd\<close>, \<^verbatim>\<open>warnp\<close> and \<^verbatim>\<open>warn\<close>, which are declared in headers only.  The
  embedding threads an explicit process state through the code, records every library call
  in a trace, and takes the outcome of each fallible call from an environment record.
\<close>

subsection \<open>Error codes, signals, dispositions\<close>

text \<open>
  The values of \<^verbatim>\<open>errno\<close> which the source names, a few it does not, and a catch-all.
  The numeric values differ between platforms; only their distinctness matters.
\<close>

datatype errcode =
  ENOTTY | ENXIO | EBADF | EINVAL | ENODEV | EIO | EINTR | ENOMEM | EAGAIN | E_other nat

datatype signum = SIGQUIT | SIGTTOU

text \<open>
  A value of type \<^verbatim>\<open>void (*)(int)\<close> which can be a disposition: the two special values
  and the address of a handler.  \<^verbatim>\<open>SIG_ERR\<close> is not a disposition; a call of
  \<^verbatim>\<open>signal\<close> which returns it is modelled by \<open>None\<close>.
\<close>

datatype handler_fn = Sigquit_handler | Host_handler nat

datatype sighandler = SIG_DFL | SIG_IGN | Handler handler_fn

text \<open>The functions which this file passes to \<^verbatim>\<open>atexit\<close>.\<close>

datatype exit_fn = Termios_restore

datatype tc_action = TCSANOW | TCSADRAIN | TCSAFLUSH

subsection \<open>Terminal attributes\<close>

text \<open>
  \<^verbatim>\<open>struct termios\<close>: the four flag words and the control-character array required by
  POSIX, the two speeds, and the platform's remaining members as raw bytes.  The array
  \<open>c_cc\<close> has \<^verbatim>\<open>NCCS\<close> elements of type \<^verbatim>\<open>cc_t\<close> (an unsigned char).
\<close>

type_synonym cc_t = "8 word"
type_synonym tcflag_t = "32 word"

record termios =
  c_iflag :: tcflag_t
  c_oflag :: tcflag_t
  c_cflag :: tcflag_t
  c_lflag :: tcflag_t
  c_cc :: "cc_t list"
  c_ispeed :: "32 word"
  c_ospeed :: "32 word"
  c_extra :: "8 word list"

text \<open>
  The macros of \<^verbatim>\<open><termios.h>\<close> and \<^verbatim>\<open><unistd.h>\<close> which the source uses and which
  the platform fixes.  \<open>POSIX_VDISABLE\<close> is the value of \<^verbatim>\<open>_POSIX_VDISABLE\<close> after its
  conversion to \<^verbatim>\<open>cc_t\<close> by the assignment in the source.
\<close>

record platform =
  NCCS :: nat
  VQUIT :: nat
  POSIX_VDISABLE :: cc_t

definition platform_ok :: "platform \<Rightarrow> bool" where
  "platform_ok P \<longleftrightarrow> VQUIT P < NCCS P"

definition termios_ok :: "platform \<Rightarrow> termios \<Rightarrow> bool" where
  "termios_ok P t \<longleftrightarrow> length (c_cc t) = NCCS P"

text \<open>The byte \<^verbatim>\<open>'q' & 0x1f\<close>; the character \<^verbatim>\<open>'q'\<close> is 0x71.\<close>

definition ctrl_q :: cc_t where
  "ctrl_q = 0x71 AND 0x1f"

subsection \<open>Trace of library calls\<close>

datatype event =
    Ev_sigaction signum sighandler bool
  | Ev_ttyfd int
  | Ev_tcgetattr int "errcode option"
  | Ev_atexit exit_fn bool
  | Ev_signal signum sighandler "sighandler option"
  | Ev_tcsetattr int tc_action termios "errcode option"
  | Ev_close int
  | Ev_warnp string
  | Ev_warn string

subsection \<open>Process state\<close>

text \<open>
  The three globals of the file (\<open>sigquit_received\<close>, \<open>tc_saved\<close>, \<open>fd_terminal\<close>), and
  the parts of the process and of the terminal driver which the library calls read and
  write: \<open>errno\<close>, the signal dispositions, the attributes of the terminal behind each
  descriptor, the functions registered with \<^verbatim>\<open>atexit\<close> (most recent first), and the
  trace.
\<close>

record world =
  sigquit_received :: int
  tc_saved :: termios
  fd_terminal :: int
  errno :: errcode
  disp :: "signum \<Rightarrow> sighandler"
  live :: "int \<Rightarrow> termios"
  atexit_fns :: "exit_fn list"
  trace :: "event list"

definition log_event :: "event \<Rightarrow> world \<Rightarrow> world" where
  "log_event e w = w\<lparr>trace := trace w @ [e]\<rparr>"

text \<open>The calls made between a state and a later one.\<close>

definition new_events :: "world \<Rightarrow> world \<Rightarrow> event list" where
  "new_events w w' = drop (length (trace w)) (trace w')"

section \<open>The library calls\<close>

text \<open>
  Each call takes its outcome as its first argument.  A call which fails sets
  \<open>errno\<close> where the C library does and leaves the object it was to change as it was.
\<close>

definition sigaction_call :: "bool \<Rightarrow> signum \<Rightarrow> sighandler \<Rightarrow> world \<Rightarrow> int \<times> world" where
  "sigaction_call fails sig h w =
     (if fails then (- 1, log_event (Ev_sigaction sig h False) (w\<lparr>errno := EINVAL\<rparr>))
      else (0, log_event (Ev_sigaction sig h True) (w\<lparr>disp := (disp w)(sig := h)\<rparr>)))"

definition signal_call :: "bool \<Rightarrow> signum \<Rightarrow> sighandler \<Rightarrow> world \<Rightarrow> sighandler option \<times> world" where
  "signal_call fails sig h w =
     (if fails then (None, log_event (Ev_signal sig h None) (w\<lparr>errno := EINVAL\<rparr>))
      else (Some (disp w sig),
            log_event (Ev_signal sig h (Some (disp w sig))) (w\<lparr>disp := (disp w)(sig := h)\<rparr>)))"

definition ttyfd_call :: "int \<Rightarrow> world \<Rightarrow> int \<times> world" where
  "ttyfd_call fd w = (fd, log_event (Ev_ttyfd fd) w)"

text \<open>\<^verbatim>\<open>tcgetattr(fd, &tc_saved)\<close>: the only use in the file stores into \<open>tc_saved\<close>.\<close>

definition tcgetattr_call :: "errcode option \<Rightarrow> int \<Rightarrow> world \<Rightarrow> int \<times> world" where
  "tcgetattr_call err fd w =
     (case err of
        Some e \<Rightarrow> (- 1, log_event (Ev_tcgetattr fd (Some e)) (w\<lparr>errno := e\<rparr>))
      | None \<Rightarrow> (0, log_event (Ev_tcgetattr fd None) (w\<lparr>tc_saved := live w fd\<rparr>)))"

definition tcsetattr_call ::
  "errcode option \<Rightarrow> int \<Rightarrow> tc_action \<Rightarrow> termios \<Rightarrow> world \<Rightarrow> int \<times> world" where
  "tcsetattr_call err fd act t w =
     (case err of
        Some e \<Rightarrow> (- 1, log_event (Ev_tcsetattr fd act t (Some e)) (w\<lparr>errno := e\<rparr>))
      | None \<Rightarrow> (0, log_event (Ev_tcsetattr fd act t None) (w\<lparr>live := (live w)(fd := t)\<rparr>)))"

definition atexit_call :: "bool \<Rightarrow> exit_fn \<Rightarrow> world \<Rightarrow> int \<times> world" where
  "atexit_call fails f w =
     (if fails then (1, log_event (Ev_atexit f False) w)
      else (0, log_event (Ev_atexit f True) (w\<lparr>atexit_fns := f # atexit_fns w\<rparr>)))"

definition close_call :: "int \<Rightarrow> world \<Rightarrow> world" where
  "close_call fd w = log_event (Ev_close fd) w"

definition warnp :: "string \<Rightarrow> world \<Rightarrow> world" where
  "warnp msg w = log_event (Ev_warnp msg) w"

definition warn :: "string \<Rightarrow> world \<Rightarrow> world" where
  "warn msg w = log_event (Ev_warn msg) w"

section \<open>lib/util/sigquit.c\<close>

subsection \<open>Outcomes of the fallible calls\<close>

text \<open>
  One call of \<open>tcsetattr_nostop\<close> makes up to three library calls: \<^verbatim>\<open>signal\<close> to
  ignore SIGTTOU, \<^verbatim>\<open>tcsetattr\<close>, and \<^verbatim>\<open>signal\<close> to put the old disposition back.
\<close>

record nostop_env =
  sig_ign_fails :: bool
  tcsetattr_err :: "errcode option"
  sig_restore_fails :: bool

text \<open>
  One call of \<open>sigquit_init\<close>: whether \<^verbatim>\<open>sigaction\<close> fails, what \<^verbatim>\<open>ttyfd\<close> returns,
  the error of \<^verbatim>\<open>tcgetattr\<close> if it fails, whether \<^verbatim>\<open>atexit\<close> fails, and the outcomes
  inside its call of \<open>tcsetattr_nostop\<close>.
\<close>

record init_env =
  sigaction_fails :: bool
  ttyfd_result :: int
  tcgetattr_err :: "errcode option"
  atexit_fails :: bool
  init_set :: nostop_env

subsection \<open>sigquit_handler\<close>

definition sigquit_handler :: "int \<Rightarrow> world \<Rightarrow> world" where
  "sigquit_handler sig w = w\<lparr>sigquit_received := 1\<rparr>"

subsection \<open>tcsetattr_nostop\<close>

definition tcsetattr_nostop ::
  "nostop_env \<Rightarrow> int \<Rightarrow> tc_action \<Rightarrow> termios \<Rightarrow> world \<Rightarrow> int \<times> world" where
  "tcsetattr_nostop e fd action t w =
     (case signal_call (sig_ign_fails e) SIGTTOU SIG_IGN w of
        (None, w1) \<Rightarrow> (- 1, w1)
      | (Some oldsig, w1) \<Rightarrow>
          (case tcsetattr_call (tcsetattr_err e) fd action t w1 of
             (rc, w2) \<Rightarrow>
               (case signal_call (sig_restore_fails e) SIGTTOU oldsig w2 of
                  (None, w3) \<Rightarrow> (- 1, w3)
                | (Some _, w3) \<Rightarrow> (rc, w3))))"

subsection \<open>termios_restore\<close>

text \<open>The value of \<open>tcsetattr_nostop\<close> is discarded; \<^verbatim>\<open>close\<close> follows in every case.\<close>

definition termios_restore :: "nostop_env \<Rightarrow> world \<Rightarrow> world" where
  "termios_restore e w =
     (case tcsetattr_nostop e (fd_terminal w) TCSANOW (tc_saved w) w of
        (_, w1) \<Rightarrow> close_call (fd_terminal w1) w1)"

subsection \<open>sigquit_init\<close>

text \<open>
  The loop \<^verbatim>\<open>for (i = 0; i < NCCS; i++)\<close> over the control characters of \<open>tc_new\<close>,
  from index \<open>i\<close> on.  The comparison is one of \<^verbatim>\<open>int\<close>s in C; both sides are below
  256, so it is the comparison of the bytes.
\<close>

function remove_ctrl_q :: "platform \<Rightarrow> nat \<Rightarrow> termios \<Rightarrow> termios" where
  "remove_ctrl_q P i tc_new =
     (if i < NCCS P then
        remove_ctrl_q P (i + 1)
          (if c_cc tc_new ! i = ctrl_q
           then tc_new\<lparr>c_cc := (c_cc tc_new)[i := POSIX_VDISABLE P]\<rparr>
           else tc_new)
      else tc_new)"
  by pat_completeness auto
termination
  by (relation "measure (\<lambda>(P, i, tc_new). NCCS P - i)") auto

declare remove_ctrl_q.simps [simp del]

text \<open>Lines 143 to 153: the copy of \<open>tc_saved\<close>, the loop, and the new binding of VQUIT.\<close>

definition tc_new_of :: "platform \<Rightarrow> termios \<Rightarrow> termios" where
  "tc_new_of P saved =
     (let tc_new = saved;
          tc_new = remove_ctrl_q P 0 tc_new
      in tc_new\<lparr>c_cc := (c_cc tc_new)[VQUIT P := ctrl_q]\<rparr>)"

definition benign_errno :: "errcode \<Rightarrow> bool" where
  "benign_errno e \<longleftrightarrow> e = ENOTTY \<or> e = ENXIO \<or> e = EBADF \<or> e = EINVAL \<or> e = ENODEV"

definition sigquit_init :: "platform \<Rightarrow> init_env \<Rightarrow> world \<Rightarrow> int \<times> world" where
  "sigquit_init P env w0 =
     (let w1 = w0\<lparr>sigquit_received := 0\<rparr> in
      case sigaction_call (sigaction_fails env) SIGQUIT (Handler Sigquit_handler) w1 of
        (r, w2) \<Rightarrow>
      if r \<noteq> 0 then (- 1, warnp ''sigaction(SIGQUIT)'' w2)
      else
      case ttyfd_call (ttyfd_result env) w2 of
        (fd, w3) \<Rightarrow>
      let w4 = w3\<lparr>fd_terminal := fd\<rparr> in
      if fd_terminal w4 = - 1 then (0, w4)
      else
      case tcgetattr_call (tcgetattr_err env) (fd_terminal w4) w4 of
        (r, w5) \<Rightarrow>
      if r \<noteq> 0 then
        (if benign_errno (errno w5) then (0, w5)
         else (- 1, warnp ''tcgetattr(stdin)'' w5))
      else
      case atexit_call (atexit_fails env) Termios_restore w5 of
        (r, w6) \<Rightarrow>
      if r \<noteq> 0 then (- 1, warn ''atexit'' w6)
      else
      case tcsetattr_nostop (init_set env) (fd_terminal w6) TCSANOW
             (tc_new_of P (tc_saved w6)) w6 of
        (r, w7) \<Rightarrow>
      if r \<noteq> 0 then (- 1, warnp ''tcsetattr(stdin)'' w7)
      else (0, w7))"

subsection \<open>The process around the file\<close>

text \<open>
  \<^verbatim>\<open>exit\<close> calls the functions registered with \<^verbatim>\<open>atexit\<close>, the one registered last
  first.  The file registers \<open>termios_restore\<close> only.
\<close>

definition run_exit_fn :: "nostop_env \<Rightarrow> exit_fn \<Rightarrow> world \<Rightarrow> world" where
  "run_exit_fn e f w = (case f of Termios_restore \<Rightarrow> termios_restore e w)"

definition exit_process :: "nostop_env \<Rightarrow> world \<Rightarrow> world" where
  "exit_process e w = fold (run_exit_fn e) (atexit_fns w) w"

text \<open>
  A process which calls \<open>sigquit_init\<close> once, receives SIGQUIT some number of times (the
  list holds the argument of each run of the handler), and exits.
\<close>

definition after_signals :: "platform \<Rightarrow> init_env \<Rightarrow> int list \<Rightarrow> world \<Rightarrow> world" where
  "after_signals P env sigs w = fold sigquit_handler sigs (snd (sigquit_init P env w))"

definition lifetime :: "platform \<Rightarrow> init_env \<Rightarrow> int list \<Rightarrow> nostop_env \<Rightarrow> world \<Rightarrow> world" where
  "lifetime P env sigs e w = exit_process e (after_signals P env sigs w)"

text \<open>
  What the file can do once \<open>sigquit_init\<close> has returned: the handler runs, or the exit
  hook runs.
\<close>

datatype later_op = Run_sigquit_handler int | Run_termios_restore nostop_env

fun run_op :: "later_op \<Rightarrow> world \<Rightarrow> world" where
  "run_op (Run_sigquit_handler sig) w = sigquit_handler sig w"
| "run_op (Run_termios_restore e) w = termios_restore e w"

definition run_ops :: "later_op list \<Rightarrow> world \<Rightarrow> world" where
  "run_ops ops w = fold run_op ops w"

subsection \<open>Concrete inputs\<close>

text \<open>
  Linux on x86: \<^verbatim>\<open>NCCS\<close> is 32, \<^verbatim>\<open>VQUIT\<close> is 1, \<^verbatim>\<open>_POSIX_VDISABLE\<close> is 0.  The
  control characters are the defaults of a Linux terminal: Ctrl+Q is VSTART, at index 8.
\<close>

definition linux :: platform where
  "linux = \<lparr>NCCS = 32, VQUIT = 1, POSIX_VDISABLE = 0\<rparr>"

definition tty_cc :: "cc_t list" where
  "tty_cc = [0x03, 0x1c, 0x7f, 0x15, 0x04, 0x00, 0x01, 0x00, 0x11, 0x13, 0x1a, 0x00,
             0x12, 0x0f, 0x17, 0x16] @ replicate 16 0x00"

definition tty_attrs :: termios where
  "tty_attrs = \<lparr>c_iflag = 0x4500, c_oflag = 0x05, c_cflag = 0xbf, c_lflag = 0x8a3b,
     c_cc = tty_cc, c_ispeed = 0x0f, c_ospeed = 0x0f, c_extra = [0x00]\<rparr>"

definition zero_attrs :: termios where
  "zero_attrs = \<lparr>c_iflag = 0, c_oflag = 0, c_cflag = 0, c_lflag = 0,
     c_cc = replicate 32 0x00, c_ispeed = 0, c_ospeed = 0, c_extra = [0x00]\<rparr>"

text \<open>
  A process at its start: the globals are zero, every disposition is the default, nothing
  is registered, and every descriptor leads to a terminal with the attributes above.
\<close>

definition start_world :: world where
  "start_world = \<lparr>sigquit_received = 0, tc_saved = zero_attrs, fd_terminal = 0,
     errno = E_other 0, disp = (\<lambda>_. SIG_DFL), live = (\<lambda>_. tty_attrs),
     atexit_fns = [], trace = []\<rparr>"

definition all_ok :: nostop_env where
  "all_ok = \<lparr>sig_ign_fails = False, tcsetattr_err = None, sig_restore_fails = False\<rparr>"

definition init_ok :: init_env where
  "init_ok = \<lparr>sigaction_fails = False, ttyfd_result = 3, tcgetattr_err = None,
     atexit_fails = False, init_set = all_ok\<rparr>"

text \<open>Environments in which one call does not go well.\<close>

definition no_tty :: init_env where
  "no_tty = init_ok\<lparr>ttyfd_result := - 1\<rparr>"

definition enotty_on_get :: init_env where
  "enotty_on_get = init_ok\<lparr>tcgetattr_err := Some ENOTTY\<rparr>"

definition atexit_refuses :: init_env where
  "atexit_refuses = init_ok\<lparr>atexit_fails := True\<rparr>"

definition einval_on_set :: init_env where
  "einval_on_set = init_ok\<lparr>init_set := all_ok\<lparr>tcsetattr_err := Some EINVAL\<rparr>\<rparr>"

definition eio_on_set :: nostop_env where
  "eio_on_set = all_ok\<lparr>tcsetattr_err := Some EIO\<rparr>"

definition restore_fails :: nostop_env where
  "restore_fails = all_ok\<lparr>sig_restore_fails := True\<rparr>"

section \<open>imalloc.h\<close>

text \<open>
  \<^verbatim>\<open>size_t\<close> is an unsigned integer of a width which the platform fixes: a word of any
  length, with \<^verbatim>\<open>SIZE_MAX\<close> the word of all ones.
\<close>

definition SIZE_MAX :: "'a::len word" where
  "SIZE_MAX = - 1"

text \<open>
  What a call of \<open>imalloc\<close> does: the assertion aborts; or it returns \<^verbatim>\<open>NULL\<close> without
  calling the allocator, having set \<open>errno\<close> or not; or it returns what
  \<^verbatim>\<open>malloc\<close> returns for a request of the given number of bytes.
\<close>

datatype 'size imalloc_result =
    Assert_failed
  | Return_NULL "errcode option"
  | Return_malloc 'size

definition imalloc :: "'a::len word \<Rightarrow> 'a word \<Rightarrow> 'a word imalloc_result" where
  "imalloc nrec reclen =
     (if \<not> (reclen \<noteq> 0) then Assert_failed
      else if nrec = 0 then Return_NULL None
      else if nrec > SIZE_MAX div reclen then Return_NULL (Some ENOMEM)
      else Return_malloc (nrec * reclen))"

section \<open>Vocabulary of the properties\<close>

text \<open>Calls which change the attributes of a terminal, and calls which close a descriptor.\<close>

fun is_tcsetattr :: "event \<Rightarrow> bool" where
  "is_tcsetattr (Ev_tcsetattr fd act t r) = True"
| "is_tcsetattr _ = False"

fun is_close :: "event \<Rightarrow> bool" where
  "is_close (Ev_close fd) = True"
| "is_close _ = False"

text \<open>
  The library calls after whose failure \<open>sigquit_init\<close> gives up: \<^verbatim>\<open>sigaction\<close>;
  \<^verbatim>\<open>tcgetattr\<close> with an error which is not benign; \<^verbatim>\<open>atexit\<close>; and, inside
  \<open>tcsetattr_nostop\<close>, \<^verbatim>\<open>tcsetattr\<close> with any error and either call of \<^verbatim>\<open>signal\<close>.
\<close>

fun fatal_event :: "event \<Rightarrow> bool" where
  "fatal_event (Ev_sigaction sig h ok) = (\<not> ok)"
| "fatal_event (Ev_tcgetattr fd err) = (case err of None \<Rightarrow> False | Some e \<Rightarrow> \<not> benign_errno e)"
| "fatal_event (Ev_atexit f ok) = (\<not> ok)"
| "fatal_event (Ev_tcsetattr fd act t err) = (case err of None \<Rightarrow> False | Some e \<Rightarrow> True)"
| "fatal_event (Ev_signal sig h r) = (case r of None \<Rightarrow> True | Some old \<Rightarrow> False)"
| "fatal_event _ = False"

text \<open>
  The failures which the specification lists as the only fatal ones: it exempts the benign
  error codes for \<^verbatim>\<open>tcsetattr\<close> as it does for \<^verbatim>\<open>tcgetattr\<close>, and does not mention
  \<^verbatim>\<open>signal\<close>.
\<close>

fun spec_fatal_event :: "event \<Rightarrow> bool" where
  "spec_fatal_event (Ev_sigaction sig h ok) = (\<not> ok)"
| "spec_fatal_event (Ev_tcgetattr fd err) =
     (case err of None \<Rightarrow> False | Some e \<Rightarrow> \<not> benign_errno e)"
| "spec_fatal_event (Ev_atexit f ok) = (\<not> ok)"
| "spec_fatal_event (Ev_tcsetattr fd act t err) =
     (case err of None \<Rightarrow> False | Some e \<Rightarrow> \<not> benign_errno e)"
| "spec_fatal_event _ = False"

section \<open>Evaluating the library calls\<close>

lemmas call_defs = sigaction_call_def signal_call_def ttyfd_call_def tcgetattr_call_def
  tcsetattr_call_def atexit_call_def close_call_def warnp_def warn_def log_event_def

lemmas init_defs = sigquit_init_def tcsetattr_nostop_def call_defs Let_def new_events_def

lemmas env_defs = init_ok_def all_ok_def no_tty_def enotty_on_get_def atexit_refuses_def
  einval_on_set_def eio_on_set_def restore_fails_def

lemma ctrl_q_val: "ctrl_q = 0x11"
  by (simp add: ctrl_q_def)

section \<open>Properties of imalloc\<close>

lemma unat_SIZE_MAX: "unat (SIZE_MAX :: 'a::len word) = 2 ^ LENGTH('a) - 1"
  by (simp add: SIZE_MAX_def unsigned_minus_1_eq_mask mask_eq_exp_minus_1)

lemma imalloc_overflow_test:
  fixes nrec reclen :: "'a::len word"
  assumes "reclen \<noteq> 0"
  shows "nrec > SIZE_MAX div reclen \<longleftrightarrow> unat nrec * unat reclen > unat (SIZE_MAX :: 'a word)"
proof -
  from assms have pos: "0 < unat reclen"
    by (simp add: unat_gt_0)
  have "nrec > SIZE_MAX div reclen \<longleftrightarrow> unat (SIZE_MAX :: 'a word) div unat reclen < unat nrec"
    by (simp add: word_less_nat_alt unat_div)
  also have "\<dots> \<longleftrightarrow> unat (SIZE_MAX :: 'a word) < unat nrec * unat reclen"
    using pos by (rule div_less_iff_less_mult)
  finally show ?thesis .
qed

lemma imalloc_no_wrap:
  fixes nrec reclen :: "'a::len word"
  assumes "reclen \<noteq> 0" and "\<not> nrec > SIZE_MAX div reclen"
  shows "unat (nrec * reclen) = unat nrec * unat reclen"
proof -
  from assms have "unat nrec * unat reclen \<le> unat (SIZE_MAX :: 'a word)"
    by (simp add: imalloc_overflow_test)
  moreover have "0 < (2 :: nat) ^ LENGTH('a)"
    by simp
  ultimately have "unat nrec * unat reclen < 2 ^ LENGTH('a)"
    unfolding unat_SIZE_MAX by linarith
  then show ?thesis
    by (simp add: unat_mult_lem)
qed

text \<open>
  Claim C7.  For a nonzero record length: a count of zero gives \<^verbatim>\<open>NULL\<close> with no call of
  the allocator and no write to \<open>errno\<close>; the result is \<^verbatim>\<open>NULL\<close> with \<open>errno\<close> set
  to \<open>ENOMEM\<close> and no call of the allocator exactly when the count exceeds
  \<^verbatim>\<open>SIZE_MAX / reclen\<close>, which is exactly when the product of the two numbers exceeds
  \<^verbatim>\<open>SIZE_MAX\<close>; and in every remaining case the allocator is asked for the product, which
  has not wrapped around.
\<close>

theorem imalloc_contract:
  fixes nrec reclen :: "'a::len word"
  assumes "reclen \<noteq> 0"
  shows "(nrec = 0 \<longrightarrow> imalloc nrec reclen = Return_NULL None)
       \<and> (imalloc nrec reclen = Return_NULL (Some ENOMEM) \<longleftrightarrow> nrec > SIZE_MAX div reclen)
       \<and> (nrec > SIZE_MAX div reclen \<longleftrightarrow>
            unat nrec * unat reclen > unat (SIZE_MAX :: 'a word))
       \<and> (nrec \<noteq> 0 \<and> \<not> nrec > SIZE_MAX div reclen \<longrightarrow>
            imalloc nrec reclen = Return_malloc (nrec * reclen)
            \<and> unat (nrec * reclen) = unat nrec * unat reclen)"
proof (intro conjI impI)
  assume "nrec = 0"
  with assms show "imalloc nrec reclen = Return_NULL None"
    by (simp add: imalloc_def)
next
  have "\<not> (0 :: 'a word) > SIZE_MAX div reclen"
    by simp
  with assms show "imalloc nrec reclen = Return_NULL (Some ENOMEM) \<longleftrightarrow> nrec > SIZE_MAX div reclen"
    by (auto simp: imalloc_def)
next
  from assms show "nrec > SIZE_MAX div reclen \<longleftrightarrow>
      unat nrec * unat reclen > unat (SIZE_MAX :: 'a word)"
    by (rule imalloc_overflow_test)
next
  assume "nrec \<noteq> 0 \<and> \<not> nrec > SIZE_MAX div reclen"
  with assms show "imalloc nrec reclen = Return_malloc (nrec * reclen)"
    by (simp add: imalloc_def)
next
  assume "nrec \<noteq> 0 \<and> \<not> nrec > SIZE_MAX div reclen"
  with assms show "unat (nrec * reclen) = unat nrec * unat reclen"
    by (simp add: imalloc_no_wrap)
qed

theorem imalloc_contract_witness:
  "(8 :: 64 word) \<noteq> 0
   \<and> imalloc (0 :: 64 word) 8 = Return_NULL None
   \<and> imalloc (0x2000000000000000 :: 64 word) 8 = Return_NULL (Some ENOMEM)
   \<and> imalloc (0x1FFFFFFFFFFFFFFF :: 64 word) 8 = Return_malloc 0xFFFFFFFFFFFFFFF8
   \<and> imalloc (3 :: 64 word) 8 = Return_malloc 24"
proof -
  have nz: "(8 :: 64 word) \<noteq> 0"
    by simp
  have big: "(0x2000000000000000 :: 64 word) > SIZE_MAX div 8"
    by (simp add: SIZE_MAX_def)
  have fit: "(0x1FFFFFFFFFFFFFFF :: 64 word) \<noteq> 0
      \<and> \<not> (0x1FFFFFFFFFFFFFFF :: 64 word) > SIZE_MAX div 8"
    by (simp add: SIZE_MAX_def)
  have small: "(3 :: 64 word) \<noteq> 0 \<and> \<not> (3 :: 64 word) > SIZE_MAX div 8"
    by (simp add: SIZE_MAX_def)
  show ?thesis
    using nz big fit small
      imalloc_contract [OF nz, of 0]
      imalloc_contract [OF nz, of "0x2000000000000000"]
      imalloc_contract [OF nz, of "0x1FFFFFFFFFFFFFFF"]
      imalloc_contract [OF nz, of 3]
    by simp
qed

section \<open>The adjusted attributes\<close>

lemma remove_ctrl_q_frame:
  "remove_ctrl_q P i tc = tc\<lparr>c_cc := c_cc (remove_ctrl_q P i tc)\<rparr>"
proof (induction P i tc rule: remove_ctrl_q.induct)
  case (1 P i tc_new)
  show ?case
  proof (cases "i < NCCS P")
    case True
    with "1.IH" show ?thesis
      by (subst (1 2) remove_ctrl_q.simps) (auto split: if_splits)
  next
    case False
    then show ?thesis
      by (simp add: remove_ctrl_q.simps)
  qed
qed

lemma remove_ctrl_q_length:
  "length (c_cc (remove_ctrl_q P i tc)) = length (c_cc tc)"
proof (induction P i tc rule: remove_ctrl_q.induct)
  case (1 P i tc_new)
  then show ?case
    by (subst remove_ctrl_q.simps) (auto split: if_splits)
qed

lemma remove_ctrl_q_nth:
  "length (c_cc tc) = NCCS P \<Longrightarrow> j < NCCS P \<Longrightarrow>
   c_cc (remove_ctrl_q P i tc) ! j =
     (if i \<le> j \<and> c_cc tc ! j = ctrl_q then POSIX_VDISABLE P else c_cc tc ! j)"
proof (induction P i tc rule: remove_ctrl_q.induct)
  case (1 P i tc_new)
  show ?case
  proof (cases "i < NCCS P")
    case True
    with "1.IH" "1.prems" show ?thesis
      by (subst remove_ctrl_q.simps) (auto simp: nth_list_update split: if_splits)
  next
    case False
    with "1.prems" show ?thesis
      by (simp add: remove_ctrl_q.simps)
  qed
qed

lemma tc_new_of_frame: "(tc_new_of P s)\<lparr>c_cc := c_cc s\<rparr> = s"
proof -
  have "(remove_ctrl_q P 0 s)\<lparr>c_cc := c_cc s\<rparr> = s"
    by (subst remove_ctrl_q_frame) simp
  then show ?thesis
    by (simp add: tc_new_of_def Let_def)
qed

lemma tc_new_of_length: "length (c_cc (tc_new_of P s)) = length (c_cc s)"
  by (simp add: tc_new_of_def Let_def remove_ctrl_q_length)

lemma tc_new_of_nth:
  assumes "termios_ok P s" and "j < NCCS P"
  shows "c_cc (tc_new_of P s) ! j =
     (if j = VQUIT P then ctrl_q
      else if c_cc s ! j = ctrl_q then POSIX_VDISABLE P else c_cc s ! j)"
  using assms
  by (simp add: tc_new_of_def Let_def termios_ok_def nth_list_update remove_ctrl_q_length
      remove_ctrl_q_nth)

lemma sigquit_init_tcsetattr_event:
  assumes "Ev_tcsetattr fd act t r \<in> set (new_events w (snd (sigquit_init P env w)))"
  shows "fd = ttyfd_result env \<and> act = TCSANOW \<and> t = tc_new_of P (live w (ttyfd_result env))
    \<and> tc_saved (snd (sigquit_init P env w)) = live w (ttyfd_result env)"
  using assms
  by (auto simp: sigquit_init_def tcsetattr_nostop_def call_defs Let_def new_events_def
      split: option.splits prod.splits if_splits)

text \<open>
  Claim C1.  Whenever \<open>sigquit_init\<close> hands attributes to \<^verbatim>\<open>tcsetattr\<close>, the snapshot
  in \<open>tc_saved\<close> is what the terminal had, and the attributes handed over differ from it
  as follows: the entry at \<^verbatim>\<open>VQUIT\<close> is 0x11; every other entry which was 0x11 in the
  snapshot is \<^verbatim>\<open>_POSIX_VDISABLE\<close>; every remaining entry is as in the snapshot; and so
  is every member other than \<open>c_cc\<close>.
\<close>

theorem sigquit_init_adjusted_attrs:
  assumes "platform_ok P" and "termios_ok P (live w (ttyfd_result env))"
    and "Ev_tcsetattr fd act t r \<in> set (new_events w (snd (sigquit_init P env w)))"
  shows "tc_saved (snd (sigquit_init P env w)) = live w fd
       \<and> length (c_cc t) = NCCS P
       \<and> c_cc t ! VQUIT P = 0x11
       \<and> (\<forall>i < NCCS P. i \<noteq> VQUIT P \<and> c_cc (live w fd) ! i = 0x11 \<longrightarrow>
            c_cc t ! i = POSIX_VDISABLE P)
       \<and> (\<forall>i < NCCS P. i \<noteq> VQUIT P \<and> c_cc (live w fd) ! i \<noteq> 0x11 \<longrightarrow>
            c_cc t ! i = c_cc (live w fd) ! i)
       \<and> t\<lparr>c_cc := c_cc (live w fd)\<rparr> = live w fd"
proof -
  from assms(3) have fd: "fd = ttyfd_result env"
    and t: "t = tc_new_of P (live w fd)"
    and saved: "tc_saved (snd (sigquit_init P env w)) = live w fd"
    using sigquit_init_tcsetattr_event [of fd act t r w P env] by simp_all
  from assms(2) fd have ok: "termios_ok P (live w fd)"
    by simp
  from assms(1) have q: "VQUIT P < NCCS P"
    by (simp add: platform_ok_def)
  have "length (c_cc t) = NCCS P"
    using ok by (simp add: t tc_new_of_length termios_ok_def)
  moreover have "c_cc t ! VQUIT P = 0x11"
    using ok q by (simp add: t tc_new_of_nth ctrl_q_val)
  moreover have "\<forall>i < NCCS P. i \<noteq> VQUIT P \<and> c_cc (live w fd) ! i = 0x11 \<longrightarrow>
      c_cc t ! i = POSIX_VDISABLE P"
    using ok by (simp add: t tc_new_of_nth ctrl_q_val)
  moreover have "\<forall>i < NCCS P. i \<noteq> VQUIT P \<and> c_cc (live w fd) ! i \<noteq> 0x11 \<longrightarrow>
      c_cc t ! i = c_cc (live w fd) ! i"
    using ok by (simp add: t tc_new_of_nth ctrl_q_val)
  moreover have "t\<lparr>c_cc := c_cc (live w fd)\<rparr> = live w fd"
    by (simp add: t tc_new_of_frame)
  ultimately show ?thesis
    using saved by simp
qed

subsection \<open>On Linux\<close>

lemma linux_ok: "platform_ok linux"
  by (simp add: platform_ok_def linux_def)

lemma tty_attrs_ok: "termios_ok linux tty_attrs"
  by (simp add: termios_ok_def linux_def tty_attrs_def tty_cc_def)

lemma init_ok_events:
  "new_events start_world (snd (sigquit_init linux init_ok start_world)) =
     [Ev_sigaction SIGQUIT (Handler Sigquit_handler) True, Ev_ttyfd 3, Ev_tcgetattr 3 None,
      Ev_atexit Termios_restore True, Ev_signal SIGTTOU SIG_IGN (Some SIG_DFL),
      Ev_tcsetattr 3 TCSANOW (tc_new_of linux tty_attrs) None,
      Ev_signal SIGTTOU SIG_DFL (Some SIG_IGN)]"
  by (simp add: sigquit_init_def tcsetattr_nostop_def call_defs Let_def new_events_def
      init_ok_def all_ok_def start_world_def)

lemma tty_cc_nth: "tty_cc ! Suc 0 = 0x1c" "tty_cc ! 8 = 0x11" "tty_cc ! 9 = 0x13"
  by (simp_all add: tty_cc_def)

theorem sigquit_init_adjusted_attrs_witness:
  "platform_ok linux \<and> termios_ok linux (live start_world (ttyfd_result init_ok))
   \<and> Ev_tcsetattr 3 TCSANOW (tc_new_of linux tty_attrs) None
       \<in> set (new_events start_world (snd (sigquit_init linux init_ok start_world)))
   \<and> c_cc tty_attrs ! 1 = 0x1c \<and> c_cc (tc_new_of linux tty_attrs) ! 1 = 0x11
   \<and> c_cc tty_attrs ! 8 = 0x11 \<and> c_cc (tc_new_of linux tty_attrs) ! 8 = 0
   \<and> c_cc tty_attrs ! 9 = 0x13 \<and> c_cc (tc_new_of linux tty_attrs) ! 9 = 0x13
   \<and> c_lflag (tc_new_of linux tty_attrs) = c_lflag tty_attrs"
proof -
  have h1: "platform_ok linux"
    by (rule linux_ok)
  have h2: "termios_ok linux (live start_world (ttyfd_result init_ok))"
    by (simp add: start_world_def tty_attrs_ok)
  have h3: "Ev_tcsetattr 3 TCSANOW (tc_new_of linux tty_attrs) None
      \<in> set (new_events start_world (snd (sigquit_init linux init_ok start_world)))"
    by (simp add: init_ok_events)
  have live: "live start_world 3 = tty_attrs"
    by (simp add: start_world_def)
  have cc: "c_cc tty_attrs = tty_cc"
    by (simp add: tty_attrs_def)
  have lf: "c_lflag (tc_new_of linux tty_attrs) =
      c_lflag ((tc_new_of linux tty_attrs)\<lparr>c_cc := c_cc tty_attrs\<rparr>)"
    by simp
  from sigquit_init_adjusted_attrs [OF h1 h2 h3]
  have "c_cc (tc_new_of linux tty_attrs) ! VQUIT linux = 0x11
      \<and> (\<forall>i < NCCS linux. i \<noteq> VQUIT linux \<and> tty_cc ! i = 0x11 \<longrightarrow>
            c_cc (tc_new_of linux tty_attrs) ! i = POSIX_VDISABLE linux)
      \<and> (\<forall>i < NCCS linux. i \<noteq> VQUIT linux \<and> tty_cc ! i \<noteq> 0x11 \<longrightarrow>
            c_cc (tc_new_of linux tty_attrs) ! i = tty_cc ! i)
      \<and> (tc_new_of linux tty_attrs)\<lparr>c_cc := c_cc tty_attrs\<rparr> = tty_attrs"
    by (simp add: live cc)
  then have "c_cc (tc_new_of linux tty_attrs) ! 1 = 0x11
      \<and> c_cc (tc_new_of linux tty_attrs) ! 8 = 0
      \<and> c_cc (tc_new_of linux tty_attrs) ! 9 = 0x13
      \<and> c_lflag (tc_new_of linux tty_attrs) = c_lflag tty_attrs"
    using lf by (simp add: linux_def tty_cc_nth)
  with h1 h2 h3 show ?thesis
    by (simp add: cc tty_cc_nth)
qed

section \<open>When \<open>sigquit_init\<close> fails\<close>

text \<open>
  Claim C2, as the code has it.  \<open>sigquit_init\<close> returns \<open>-1\<close> exactly when one of its
  library calls failed fatally: \<^verbatim>\<open>sigaction\<close>; \<^verbatim>\<open>tcgetattr\<close> with an error outside
  the benign set; \<^verbatim>\<open>atexit\<close>; \<^verbatim>\<open>tcsetattr\<close> with any error at all; or one of the two
  calls of \<^verbatim>\<open>signal\<close> around it.  Otherwise it returns \<open>0\<close>.
\<close>

theorem sigquit_init_failure_iff:
  "(fst (sigquit_init P env w) = - 1 \<longleftrightarrow>
      list_ex fatal_event (new_events w (snd (sigquit_init P env w))))
   \<and> (fst (sigquit_init P env w) \<noteq> - 1 \<longrightarrow> fst (sigquit_init P env w) = 0)"
  by (simp add: init_defs split: option.splits prod.splits)

theorem sigquit_init_failure_iff_witness:
  "fst (sigquit_init linux einval_on_set start_world) = - 1
   \<and> list_ex fatal_event
       (new_events start_world (snd (sigquit_init linux einval_on_set start_world)))
   \<and> fst (sigquit_init linux init_ok start_world) = 0
   \<and> \<not> list_ex fatal_event
       (new_events start_world (snd (sigquit_init linux init_ok start_world)))"
proof -
  have "fst (sigquit_init linux einval_on_set start_world) = - 1"
    by (simp add: init_defs env_defs start_world_def)
  moreover have "fst (sigquit_init linux init_ok start_world) = 0"
    by (simp add: init_defs env_defs start_world_def)
  ultimately show ?thesis
    using sigquit_init_failure_iff [of linux einval_on_set start_world]
      sigquit_init_failure_iff [of linux init_ok start_world]
    by simp
qed

text \<open>
  The claim as the specification words it fails: when \<^verbatim>\<open>tcsetattr\<close> fails with
  \<open>EINVAL\<close>, a code of the benign set, \<open>sigquit_init\<close> returns \<open>-1\<close> although none
  of the failures which the specification lists has occurred.
\<close>

theorem sigquit_init_failure_counterexample:
  "fst (sigquit_init linux einval_on_set start_world) = - 1
   \<and> \<not> list_ex spec_fatal_event
         (new_events start_world (snd (sigquit_init linux einval_on_set start_world)))"
  by (simp add: init_defs env_defs start_world_def benign_errno_def)

section \<open>The disposition of SIGTTOU around tcsetattr\<close>

text \<open>
  Claim C3, as the code has it.  When the call of \<^verbatim>\<open>signal\<close> which ignores SIGTTOU
  succeeds and the call which puts the old disposition back succeeds too, then the
  dispositions after \<open>tcsetattr_nostop\<close> are those before it, the value returned is that
  of \<^verbatim>\<open>tcsetattr\<close>, and the old disposition is put back after \<^verbatim>\<open>tcsetattr\<close> whether
  that failed or not.  When the second call of \<^verbatim>\<open>signal\<close> fails, the value is \<open>-1\<close>.
\<close>

theorem tcsetattr_nostop_restores:
  assumes "\<not> sig_ign_fails e"
  shows "(\<not> sig_restore_fails e \<longrightarrow>
            disp (snd (tcsetattr_nostop e fd act t w)) = disp w
          \<and> fst (tcsetattr_nostop e fd act t w) = (if tcsetattr_err e = None then 0 else - 1)
          \<and> new_events w (snd (tcsetattr_nostop e fd act t w)) =
              [Ev_signal SIGTTOU SIG_IGN (Some (disp w SIGTTOU)),
               Ev_tcsetattr fd act t (tcsetattr_err e),
               Ev_signal SIGTTOU (disp w SIGTTOU) (Some SIG_IGN)])
       \<and> (sig_restore_fails e \<longrightarrow> fst (tcsetattr_nostop e fd act t w) = - 1)"
  using assms
  by (simp add: tcsetattr_nostop_def call_defs new_events_def split: option.splits)

theorem tcsetattr_nostop_restores_witness:
  "\<not> sig_ign_fails eio_on_set \<and> \<not> sig_restore_fails eio_on_set
   \<and> disp (snd (tcsetattr_nostop eio_on_set 3 TCSANOW tty_attrs start_world)) = disp start_world
   \<and> fst (tcsetattr_nostop eio_on_set 3 TCSANOW tty_attrs start_world) = - 1
   \<and> fst (tcsetattr_nostop all_ok 3 TCSANOW tty_attrs start_world) = 0
   \<and> sig_restore_fails restore_fails
   \<and> fst (tcsetattr_nostop restore_fails 3 TCSANOW tty_attrs start_world) = - 1"
proof -
  have h1: "\<not> sig_ign_fails eio_on_set" and h2: "\<not> sig_ign_fails all_ok"
    and h3: "\<not> sig_ign_fails restore_fails"
    by (simp_all add: env_defs)
  show ?thesis
    using tcsetattr_nostop_restores [OF h1, of 3 TCSANOW tty_attrs start_world]
      tcsetattr_nostop_restores [OF h2, of 3 TCSANOW tty_attrs start_world]
      tcsetattr_nostop_restores [OF h3, of 3 TCSANOW tty_attrs start_world]
    by (simp add: env_defs)
qed

text \<open>
  The claim as the specification words it fails: the first call of \<^verbatim>\<open>signal\<close> and
  \<^verbatim>\<open>tcsetattr\<close> succeed, the second call of \<^verbatim>\<open>signal\<close> fails; the function returns
  \<open>-1\<close>, which is not the value of \<^verbatim>\<open>tcsetattr\<close>, and SIGTTOU stays ignored.
\<close>

theorem tcsetattr_nostop_counterexample:
  "\<not> sig_ign_fails restore_fails
   \<and> tcsetattr_err restore_fails = None
   \<and> fst (tcsetattr_nostop restore_fails 3 TCSANOW tty_attrs start_world) = - 1
   \<and> disp start_world SIGTTOU = SIG_DFL
   \<and> disp (snd (tcsetattr_nostop restore_fails 3 TCSANOW tty_attrs start_world)) SIGTTOU = SIG_IGN"
  by (simp add: tcsetattr_nostop_def call_defs env_defs start_world_def)

section \<open>Registration before mutation\<close>

text \<open>
  Claim C5.  If \<open>sigquit_init\<close> calls \<^verbatim>\<open>tcsetattr\<close> at all, a successful call of
  \<^verbatim>\<open>atexit\<close> for \<open>termios_restore\<close> comes before the first such call.  If the call
  of \<^verbatim>\<open>atexit\<close> fails, \<open>sigquit_init\<close> returns \<open>-1\<close>, has not called
  \<^verbatim>\<open>tcsetattr\<close>, and the attributes of every terminal are what they were.
\<close>

theorem sigquit_init_registers_first:
  "(list_ex is_tcsetattr (new_events w (snd (sigquit_init P env w))) \<longrightarrow>
      Ev_atexit Termios_restore True
        \<in> set (takeWhile (\<lambda>e. \<not> is_tcsetattr e) (new_events w (snd (sigquit_init P env w)))))
   \<and> (Ev_atexit Termios_restore False \<in> set (new_events w (snd (sigquit_init P env w))) \<longrightarrow>
        fst (sigquit_init P env w) = - 1
      \<and> live (snd (sigquit_init P env w)) = live w
      \<and> \<not> list_ex is_tcsetattr (new_events w (snd (sigquit_init P env w))))"
  by (simp add: init_defs split: option.splits prod.splits)

theorem sigquit_init_registers_first_witness:
  "list_ex is_tcsetattr (new_events start_world (snd (sigquit_init linux init_ok start_world)))
   \<and> Ev_atexit Termios_restore True
       \<in> set (takeWhile (\<lambda>e. \<not> is_tcsetattr e)
           (new_events start_world (snd (sigquit_init linux init_ok start_world))))
   \<and> Ev_atexit Termios_restore False
       \<in> set (new_events start_world (snd (sigquit_init linux atexit_refuses start_world)))
   \<and> fst (sigquit_init linux atexit_refuses start_world) = - 1
   \<and> live (snd (sigquit_init linux atexit_refuses start_world)) = live start_world"
proof -
  have "list_ex is_tcsetattr
      (new_events start_world (snd (sigquit_init linux init_ok start_world)))"
    by (simp add: init_ok_events)
  moreover have "Ev_atexit Termios_restore False
      \<in> set (new_events start_world (snd (sigquit_init linux atexit_refuses start_world)))"
    by (simp add: init_defs env_defs start_world_def)
  ultimately show ?thesis
    using sigquit_init_registers_first [of start_world linux init_ok]
      sigquit_init_registers_first [of start_world linux atexit_refuses]
    by simp
qed

section \<open>No controlling terminal\<close>

lemma ttyfd_none_iff:
  "Ev_ttyfd (- 1) \<in> set (new_events w (snd (sigquit_init P env w))) \<longleftrightarrow>
     \<not> sigaction_fails env \<and> ttyfd_result env = - 1"
  by (simp add: init_defs split: option.splits prod.splits)

text \<open>
  Claim C6.  When \<^verbatim>\<open>ttyfd\<close> returns \<open>-1\<close>, \<open>sigquit_init\<close> returns \<open>0\<close>,
  \<open>sigquit_received\<close> is \<open>0\<close>, the handler is installed for SIGQUIT, and the only
  library calls made are \<^verbatim>\<open>sigaction\<close> and \<^verbatim>\<open>ttyfd\<close>: no attributes are read or
  written and nothing is registered with \<^verbatim>\<open>atexit\<close>.
\<close>

theorem sigquit_init_no_terminal:
  assumes "Ev_ttyfd (- 1) \<in> set (new_events w (snd (sigquit_init P env w)))"
  shows "fst (sigquit_init P env w) = 0
       \<and> sigquit_received (snd (sigquit_init P env w)) = 0
       \<and> disp (snd (sigquit_init P env w)) SIGQUIT = Handler Sigquit_handler
       \<and> new_events w (snd (sigquit_init P env w)) =
           [Ev_sigaction SIGQUIT (Handler Sigquit_handler) True, Ev_ttyfd (- 1)]
       \<and> live (snd (sigquit_init P env w)) = live w
       \<and> tc_saved (snd (sigquit_init P env w)) = tc_saved w
       \<and> atexit_fns (snd (sigquit_init P env w)) = atexit_fns w"
proof -
  from assms have "\<not> sigaction_fails env \<and> ttyfd_result env = - 1"
    by (simp add: ttyfd_none_iff)
  then show ?thesis
    by (simp add: init_defs)
qed

theorem sigquit_init_no_terminal_witness:
  "Ev_ttyfd (- 1) \<in> set (new_events start_world (snd (sigquit_init linux no_tty start_world)))
   \<and> fst (sigquit_init linux no_tty start_world) = 0
   \<and> sigquit_received (snd (sigquit_init linux no_tty start_world)) = 0
   \<and> disp (snd (sigquit_init linux no_tty start_world)) SIGQUIT = Handler Sigquit_handler
   \<and> atexit_fns (snd (sigquit_init linux no_tty start_world)) = []"
proof -
  have h: "Ev_ttyfd (- 1)
      \<in> set (new_events start_world (snd (sigquit_init linux no_tty start_world)))"
    by (simp add: ttyfd_none_iff env_defs)
  show ?thesis
    using h sigquit_init_no_terminal [OF h]
    by (simp add: start_world_def)
qed

section \<open>What the later operations leave alone\<close>

lemma tcsetattr_nostop_frame:
  "sigquit_received (snd (tcsetattr_nostop e fd act t w)) = sigquit_received w"
  "tc_saved (snd (tcsetattr_nostop e fd act t w)) = tc_saved w"
  "fd_terminal (snd (tcsetattr_nostop e fd act t w)) = fd_terminal w"
  "atexit_fns (snd (tcsetattr_nostop e fd act t w)) = atexit_fns w"
  by (simp_all add: tcsetattr_nostop_def call_defs split: option.splits)

lemma tcsetattr_nostop_events:
  "\<exists>evs. trace (snd (tcsetattr_nostop e fd act t w)) = trace w @ evs
     \<and> \<not> list_ex is_close evs
     \<and> (\<forall>ev \<in> set evs. is_tcsetattr ev \<longrightarrow> ev = Ev_tcsetattr fd act t (tcsetattr_err e))"
  by (simp add: tcsetattr_nostop_def call_defs split: option.splits)

lemma termios_restore_frame:
  "sigquit_received (termios_restore e w) = sigquit_received w"
  "tc_saved (termios_restore e w) = tc_saved w"
  "fd_terminal (termios_restore e w) = fd_terminal w"
  "atexit_fns (termios_restore e w) = atexit_fns w"
  by (simp_all add: termios_restore_def close_call_def log_event_def tcsetattr_nostop_frame
      split_beta)

lemma termios_restore_unfold:
  "termios_restore e w =
     close_call (fd_terminal w) (snd (tcsetattr_nostop e (fd_terminal w) TCSANOW (tc_saved w) w))"
  by (simp add: termios_restore_def tcsetattr_nostop_frame split_beta)

lemma termios_restore_events:
  "\<exists>evs. trace (termios_restore e w) = trace w @ evs @ [Ev_close (fd_terminal w)]
     \<and> \<not> list_ex is_close evs
     \<and> (\<forall>ev \<in> set evs. is_tcsetattr ev \<longrightarrow>
           ev = Ev_tcsetattr (fd_terminal w) TCSANOW (tc_saved w) (tcsetattr_err e))"
proof -
  obtain evs where "trace (snd (tcsetattr_nostop e (fd_terminal w) TCSANOW (tc_saved w) w))
        = trace w @ evs"
    and "\<not> list_ex is_close evs"
    and "\<forall>ev \<in> set evs. is_tcsetattr ev \<longrightarrow>
           ev = Ev_tcsetattr (fd_terminal w) TCSANOW (tc_saved w) (tcsetattr_err e)"
    using tcsetattr_nostop_events [of e "fd_terminal w" TCSANOW "tc_saved w" w] by blast
  then show ?thesis
    by (simp add: termios_restore_unfold close_call_def log_event_def)
qed

lemma sigquit_handler_frame:
  "tc_saved (sigquit_handler sig w) = tc_saved w"
  "fd_terminal (sigquit_handler sig w) = fd_terminal w"
  "atexit_fns (sigquit_handler sig w) = atexit_fns w"
  "trace (sigquit_handler sig w) = trace w"
  by (simp_all add: sigquit_handler_def)

lemma run_op_frame:
  "tc_saved (run_op op w) = tc_saved w"
  "fd_terminal (run_op op w) = fd_terminal w"
  "atexit_fns (run_op op w) = atexit_fns w"
  by (cases op; simp add: sigquit_handler_frame termios_restore_frame)+

lemma run_ops_frame:
  "tc_saved (run_ops ops w) = tc_saved w \<and> fd_terminal (run_ops ops w) = fd_terminal w
   \<and> atexit_fns (run_ops ops w) = atexit_fns w"
  unfolding run_ops_def
  by (induction ops arbitrary: w) (simp_all add: run_op_frame)


lemma run_op_events:
  "\<exists>evs. trace (run_op op w) = trace w @ evs
     \<and> (\<forall>ev \<in> set evs. is_tcsetattr ev \<longrightarrow>
           (\<exists>r. ev = Ev_tcsetattr (fd_terminal w) TCSANOW (tc_saved w) r))"
proof (cases op)
  case (Run_sigquit_handler sig)
  then show ?thesis
    by (simp add: sigquit_handler_frame)
next
  case (Run_termios_restore e)
  obtain evs where "trace (termios_restore e w) = trace w @ evs @ [Ev_close (fd_terminal w)]"
    and "\<forall>ev \<in> set evs. is_tcsetattr ev \<longrightarrow>
           ev = Ev_tcsetattr (fd_terminal w) TCSANOW (tc_saved w) (tcsetattr_err e)"
    using termios_restore_events [of e w] by blast
  then have "trace (termios_restore e w) = trace w @ (evs @ [Ev_close (fd_terminal w)])
     \<and> (\<forall>ev \<in> set (evs @ [Ev_close (fd_terminal w)]). is_tcsetattr ev \<longrightarrow>
           (\<exists>r. ev = Ev_tcsetattr (fd_terminal w) TCSANOW (tc_saved w) r))"
    by auto
  then have "\<exists>evs'. trace (termios_restore e w) = trace w @ evs'
     \<and> (\<forall>ev \<in> set evs'. is_tcsetattr ev \<longrightarrow>
           (\<exists>r. ev = Ev_tcsetattr (fd_terminal w) TCSANOW (tc_saved w) r))"
    by (rule exI)
  with Run_termios_restore show ?thesis
    by simp
qed

lemma run_ops_events:
  "\<exists>evs. trace (run_ops ops w) = trace w @ evs
     \<and> (\<forall>ev \<in> set evs. is_tcsetattr ev \<longrightarrow>
           (\<exists>r. ev = Ev_tcsetattr (fd_terminal w) TCSANOW (tc_saved w) r))"
proof (induction ops arbitrary: w)
  case Nil
  show ?case
    by (simp add: run_ops_def)
next
  case (Cons op ops)
  obtain evs1 where a1: "trace (run_op op w) = trace w @ evs1"
    and b1: "\<forall>ev \<in> set evs1. is_tcsetattr ev \<longrightarrow>
           (\<exists>r. ev = Ev_tcsetattr (fd_terminal w) TCSANOW (tc_saved w) r)"
    using run_op_events [of op w] by blast
  obtain evs2 where a2: "trace (run_ops ops (run_op op w)) = trace (run_op op w) @ evs2"
    and b2: "\<forall>ev \<in> set evs2. is_tcsetattr ev \<longrightarrow>
           (\<exists>r. ev = Ev_tcsetattr (fd_terminal (run_op op w)) TCSANOW (tc_saved (run_op op w)) r)"
    using Cons.IH [of "run_op op w"] by blast
  have "trace (run_ops (op # ops) w) = trace w @ (evs1 @ evs2)"
    using a1 a2 by (simp add: run_ops_def)
  moreover have "\<forall>ev \<in> set (evs1 @ evs2). is_tcsetattr ev \<longrightarrow>
           (\<exists>r. ev = Ev_tcsetattr (fd_terminal w) TCSANOW (tc_saved w) r)"
    using b1 b2 by (auto simp: run_op_frame)
  ultimately show ?case
    by blast
qed

lemma sigquit_init_captures:
  "Ev_tcgetattr fd None \<in> set (new_events w (snd (sigquit_init P env w))) \<longleftrightarrow>
     \<not> sigaction_fails env \<and> ttyfd_result env \<noteq> - 1 \<and> fd = ttyfd_result env
     \<and> tcgetattr_err env = None"
  by (simp add: init_defs split: option.splits prod.splits)

lemma sigquit_init_captured_state:
  assumes "\<not> sigaction_fails env" and "ttyfd_result env \<noteq> - 1" and "tcgetattr_err env = None"
  shows "tc_saved (snd (sigquit_init P env w)) = live w (ttyfd_result env)
       \<and> fd_terminal (snd (sigquit_init P env w)) = ttyfd_result env"
  using assms
  by (simp add: init_defs split: option.splits prod.splits)

lemma sigquit_init_trace:
  "trace (snd (sigquit_init P env w)) = trace w @ new_events w (snd (sigquit_init P env w))"
  by (simp add: init_defs split: option.splits prod.splits)

section \<open>The snapshot and the exit hook\<close>

text \<open>
  Claim C4.  Once \<^verbatim>\<open>tcgetattr\<close> has succeeded in \<open>sigquit_init\<close>, \<open>tc_saved\<close>
  holds the attributes which the terminal had at that moment, the adjustment having been
  made on \<open>tc_new\<close>; no later run of the handler or of the exit hook changes
  \<open>tc_saved\<close>; every call of \<^verbatim>\<open>tcsetattr\<close> made later is made by the exit hook on the
  same descriptor with exactly those attributes; and when the calls of the exit hook
  succeed, the terminal has them again.
\<close>

theorem termios_restore_applies_snapshot:
  assumes "Ev_tcgetattr fd None \<in> set (new_events w (snd (sigquit_init P env w)))"
  shows "tc_saved (snd (sigquit_init P env w)) = live w fd
       \<and> tc_saved (run_ops ops (snd (sigquit_init P env w))) = live w fd
       \<and> (\<forall>ev \<in> set (new_events (snd (sigquit_init P env w))
                        (run_ops ops (snd (sigquit_init P env w)))).
            is_tcsetattr ev \<longrightarrow> (\<exists>r. ev = Ev_tcsetattr fd TCSANOW (live w fd) r))
       \<and> live (termios_restore all_ok (run_ops ops (snd (sigquit_init P env w)))) fd = live w fd"
proof -
  let ?w1 = "snd (sigquit_init P env w)"
  from assms have fd: "fd = ttyfd_result env"
    and st: "tc_saved ?w1 = live w fd \<and> fd_terminal ?w1 = fd"
    using sigquit_init_captured_state [of env P w] by (simp_all add: sigquit_init_captures)
  have later: "tc_saved (run_ops ops ?w1) = live w fd \<and> fd_terminal (run_ops ops ?w1) = fd"
    using st by (simp add: run_ops_frame)
  obtain evs where "trace (run_ops ops ?w1) = trace ?w1 @ evs"
    and "\<forall>ev \<in> set evs. is_tcsetattr ev \<longrightarrow>
           (\<exists>r. ev = Ev_tcsetattr (fd_terminal ?w1) TCSANOW (tc_saved ?w1) r)"
    using run_ops_events [of ops ?w1] by blast
  then have ev: "\<forall>ev \<in> set (new_events ?w1 (run_ops ops ?w1)).
      is_tcsetattr ev \<longrightarrow> (\<exists>r. ev = Ev_tcsetattr fd TCSANOW (live w fd) r)"
    using st by (simp add: new_events_def)
  have "live (termios_restore all_ok (run_ops ops ?w1)) fd = live w fd"
    using later
    by (simp add: termios_restore_unfold tcsetattr_nostop_def call_defs all_ok_def)
  with st later ev show ?thesis
    by simp
qed

theorem termios_restore_applies_snapshot_witness:
  "Ev_tcgetattr 3 None
     \<in> set (new_events start_world (snd (sigquit_init linux init_ok start_world)))
   \<and> tc_saved (snd (sigquit_init linux init_ok start_world)) = tty_attrs
   \<and> tc_saved (run_ops [Run_sigquit_handler 3, Run_termios_restore all_ok]
        (snd (sigquit_init linux init_ok start_world))) = tty_attrs
   \<and> live (termios_restore all_ok
        (run_ops [Run_sigquit_handler 3] (snd (sigquit_init linux init_ok start_world)))) 3
       = tty_attrs"
proof -
  have h: "Ev_tcgetattr 3 None
      \<in> set (new_events start_world (snd (sigquit_init linux init_ok start_world)))"
    by (simp add: init_ok_events)
  have l: "live start_world 3 = tty_attrs"
    by (simp add: start_world_def)
  show ?thesis
    using h termios_restore_applies_snapshot
        [OF h, of "[Run_sigquit_handler 3, Run_termios_restore all_ok]"]
      termios_restore_applies_snapshot [OF h, of "[Run_sigquit_handler 3]"]
    by (simp add: l)
qed

section \<open>The quit flag\<close>

lemma run_ops_sticky:
  "sigquit_received w = 1 \<Longrightarrow> sigquit_received (run_ops ops w) = 1"
  unfolding run_ops_def
proof (induction ops arbitrary: w)
  case Nil
  then show ?case by simp
next
  case (Cons op ops)
  have "sigquit_received (run_op op w) = 1"
    using Cons.prems by (cases op) (simp_all add: sigquit_handler_def termios_restore_frame)
  then show ?case
    using Cons.IH by simp
qed

text \<open>
  Claim C9.  With \<open>sigquit_init\<close> called once, what the file does afterwards is to run
  the handler or the exit hook.  The handler writes \<open>1\<close> to \<open>sigquit_received\<close> and
  does nothing else; the exit hook does not write to it; so once it holds \<open>1\<close> it holds
  \<open>1\<close> after every further operation.
\<close>

theorem sigquit_received_sticky:
  "sigquit_handler sig w = w\<lparr>sigquit_received := 1\<rparr>
   \<and> sigquit_received (run_op op w) =
       (case op of Run_sigquit_handler sg \<Rightarrow> 1 | Run_termios_restore e \<Rightarrow> sigquit_received w)
   \<and> (sigquit_received w = 1 \<longrightarrow> (\<forall>k. sigquit_received (run_ops (take k ops) w) = 1))"
proof -
  have "sigquit_received (run_op op w) =
       (case op of Run_sigquit_handler sg \<Rightarrow> 1 | Run_termios_restore e \<Rightarrow> sigquit_received w)"
    by (cases op) (simp_all add: sigquit_handler_def termios_restore_frame)
  then show ?thesis
    by (simp add: sigquit_handler_def run_ops_sticky)
qed

theorem sigquit_received_sticky_witness:
  "sigquit_received (sigquit_handler 3 (snd (sigquit_init linux init_ok start_world))) = 1
   \<and> sigquit_received (run_ops [Run_sigquit_handler 3, Run_termios_restore all_ok]
        (sigquit_handler 3 (snd (sigquit_init linux init_ok start_world)))) = 1
   \<and> sigquit_received (run_ops [Run_termios_restore all_ok]
        (sigquit_handler 3 (snd (sigquit_init linux init_ok start_world)))) = 1"
proof -
  let ?w = "sigquit_handler 3 (snd (sigquit_init linux init_ok start_world))"
  have h: "sigquit_received ?w = 1"
    by (simp add: sigquit_handler_def)
  have "\<forall>k. sigquit_received
      (run_ops (take k [Run_sigquit_handler 3, Run_termios_restore all_ok]) ?w) = 1"
    using h sigquit_received_sticky
      [of 3 ?w "Run_sigquit_handler 3" "[Run_sigquit_handler 3, Run_termios_restore all_ok]"]
    by blast
  then have "sigquit_received
      (run_ops (take 2 [Run_sigquit_handler 3, Run_termios_restore all_ok]) ?w) = 1"
    by (rule spec)
  moreover have "\<forall>k. sigquit_received (run_ops (take k [Run_termios_restore all_ok]) ?w) = 1"
    using h sigquit_received_sticky
      [of 3 ?w "Run_sigquit_handler 3" "[Run_termios_restore all_ok]"]
    by blast
  then have "sigquit_received (run_ops (take 1 [Run_termios_restore all_ok]) ?w) = 1"
    by (rule spec)
  ultimately show ?thesis
    using h by simp
qed

section \<open>The life of the descriptor\<close>

lemma registered_iff:
  "Ev_atexit Termios_restore True \<in> set (new_events w (snd (sigquit_init P env w))) \<longleftrightarrow>
     \<not> sigaction_fails env \<and> ttyfd_result env \<noteq> - 1 \<and> tcgetattr_err env = None
     \<and> \<not> atexit_fails env"
  by (simp add: init_defs split: option.splits prod.splits)

lemma registered_state:
  assumes "\<not> sigaction_fails env" and "ttyfd_result env \<noteq> - 1" and "tcgetattr_err env = None"
    and "\<not> atexit_fails env"
  shows "atexit_fns (snd (sigquit_init P env w)) = Termios_restore # atexit_fns w"
  using assms
  by (simp add: init_defs split: option.splits prod.splits)

lemma sigquit_init_no_close:
  "\<not> list_ex is_close (new_events w (snd (sigquit_init P env w)))"
  by (simp add: init_defs split: option.splits prod.splits)

lemma fold_handler_frame:
  "tc_saved (fold sigquit_handler sigs w) = tc_saved w
   \<and> fd_terminal (fold sigquit_handler sigs w) = fd_terminal w
   \<and> atexit_fns (fold sigquit_handler sigs w) = atexit_fns w
   \<and> trace (fold sigquit_handler sigs w) = trace w
   \<and> live (fold sigquit_handler sigs w) = live w"
  by (induction sigs arbitrary: w) (simp_all add: sigquit_handler_def)

lemma no_close_count:
  "\<not> list_ex is_close evs \<Longrightarrow> count_list evs (Ev_close fd) = 0 \<and> filter is_close evs = []"
  by (induction evs) (auto simp: list_ex_iff)

lemma exit_registered:
  assumes "atexit_fns w = [Termios_restore]"
  shows "exit_process e w = termios_restore e w"
  using assms by (simp add: exit_process_def run_exit_fn_def)

text \<open>
  Claim C8, as the code has it.  In a process which had nothing registered before:
  neither \<open>sigquit_init\<close> nor the handler closes a descriptor; and when
  \<open>sigquit_init\<close> has registered the exit hook, \<^verbatim>\<open>exit\<close> runs \<open>termios_restore\<close>,
  whose last call closes the descriptor which \<^verbatim>\<open>ttyfd\<close> returned, and this is the only
  call of \<^verbatim>\<open>close\<close> in the life of the process.
\<close>

theorem descriptor_closed_once:
  assumes "atexit_fns w = []"
  shows "\<not> list_ex is_close (new_events w (after_signals P env sigs w))
       \<and> (Ev_atexit Termios_restore True \<in> set (new_events w (snd (sigquit_init P env w))) \<longrightarrow>
            lifetime P env sigs e w = termios_restore e (after_signals P env sigs w)
          \<and> count_list (new_events w (lifetime P env sigs e w)) (Ev_close (ttyfd_result env)) = 1
          \<and> length (filter is_close (new_events w (lifetime P env sigs e w))) = 1
          \<and> last (new_events (after_signals P env sigs w) (lifetime P env sigs e w)) =
              Ev_close (ttyfd_result env))"
proof -
  let ?w1 = "snd (sigquit_init P env w)"
  let ?w2 = "after_signals P env sigs w"
  let ?fd = "ttyfd_result env"
  have tr2: "trace ?w2 = trace w @ new_events w ?w1"
    by (simp add: after_signals_def fold_handler_frame sigquit_init_trace)
  then have ev2: "new_events w ?w2 = new_events w ?w1"
    by (simp add: new_events_def)
  have nc: "\<not> list_ex is_close (new_events w ?w2)"
    by (simp add: ev2 sigquit_init_no_close)
  have "lifetime P env sigs e w = termios_restore e ?w2
      \<and> count_list (new_events w (lifetime P env sigs e w)) (Ev_close ?fd) = 1
      \<and> length (filter is_close (new_events w (lifetime P env sigs e w))) = 1
      \<and> last (new_events ?w2 (lifetime P env sigs e w)) = Ev_close ?fd"
    if reg: "Ev_atexit Termios_restore True \<in> set (new_events w ?w1)"
  proof -
    from reg have c: "\<not> sigaction_fails env" "ttyfd_result env \<noteq> - 1" "tcgetattr_err env = None"
      "\<not> atexit_fails env"
      by (simp_all add: registered_iff)
    have fns: "atexit_fns ?w2 = [Termios_restore]"
      using c assms by (simp add: after_signals_def fold_handler_frame registered_state)
    have fd: "fd_terminal ?w2 = ?fd"
      using c by (simp add: after_signals_def fold_handler_frame sigquit_init_captured_state)
    have life: "lifetime P env sigs e w = termios_restore e ?w2"
      using fns by (simp add: lifetime_def exit_registered)
    obtain evs where tr3: "trace (termios_restore e ?w2) = trace ?w2 @ evs @ [Ev_close ?fd]"
      and nc3: "\<not> list_ex is_close evs"
      using termios_restore_events [of e ?w2] fd by auto
    have all: "new_events w (lifetime P env sigs e w) = new_events w ?w1 @ evs @ [Ev_close ?fd]"
      using tr3 tr2 by (simp add: life new_events_def)
    have "count_list (new_events w (lifetime P env sigs e w)) (Ev_close ?fd) = 1"
      using no_close_count [OF nc3, of ?fd] no_close_count [OF sigquit_init_no_close, of w P env ?fd]
      by (simp add: all)
    moreover have "length (filter is_close (new_events w (lifetime P env sigs e w))) = 1"
      using no_close_count [OF nc3, of ?fd] no_close_count [OF sigquit_init_no_close, of w P env ?fd]
      by (simp add: all)
    moreover have "last (new_events ?w2 (lifetime P env sigs e w)) = Ev_close ?fd"
      using tr3 by (simp add: life new_events_def)
    ultimately show ?thesis
      using life by simp
  qed
  with nc show ?thesis
    by blast
qed


lemma einval_registered:
  "Ev_atexit Termios_restore True
     \<in> set (new_events start_world (snd (sigquit_init linux einval_on_set start_world)))"
  by (simp add: registered_iff env_defs)

lemma init_ok_registered:
  "Ev_atexit Termios_restore True
     \<in> set (new_events start_world (snd (sigquit_init linux init_ok start_world)))"
  by (simp add: registered_iff env_defs)

lemma start_world_fresh: "atexit_fns start_world = []"
  by (simp add: start_world_def)

theorem descriptor_closed_once_witness:
  "atexit_fns start_world = []
   \<and> Ev_atexit Termios_restore True
       \<in> set (new_events start_world (snd (sigquit_init linux init_ok start_world)))
   \<and> count_list (new_events start_world (lifetime linux init_ok [3, 3] all_ok start_world))
        (Ev_close 3) = 1
   \<and> \<not> list_ex is_close (new_events start_world (after_signals linux init_ok [3, 3] start_world))"
proof -
  have fd: "ttyfd_result init_ok = 3"
    by (simp add: env_defs)
  show ?thesis
    using start_world_fresh init_ok_registered
      descriptor_closed_once [OF start_world_fresh, of linux init_ok "[3, 3]" all_ok,
        unfolded fd]
    by blast
qed

text \<open>
  The claim as the specification words it fails: \<^verbatim>\<open>ttyfd\<close> returns descriptor 3,
  \<^verbatim>\<open>tcgetattr\<close> fails with \<open>ENOTTY\<close>, \<open>sigquit_init\<close> returns \<open>0\<close> without
  registering the exit hook, and the descriptor is not closed in the life of the process.
\<close>

theorem descriptor_never_closed_counterexample:
  "Ev_ttyfd 3
     \<in> set (new_events start_world (lifetime linux enotty_on_get [] all_ok start_world))
   \<and> fst (sigquit_init linux enotty_on_get start_world) = 0
   \<and> count_list (new_events start_world (lifetime linux enotty_on_get [] all_ok start_world))
        (Ev_close 3) = 0"
  by (simp add: lifetime_def after_signals_def exit_process_def init_defs env_defs
      start_world_def benign_errno_def)

section \<open>The exit hook after a failed initialisation\<close>

text \<open>
  Claim C10.  When \<open>sigquit_init\<close> has registered the exit hook and then returns
  \<open>-1\<close>, the failure is one inside \<open>tcsetattr_nostop\<close>, and the hook stays
  registered: \<^verbatim>\<open>exit\<close> runs \<open>termios_restore\<close>, which passes the snapshot to
  \<open>tcsetattr_nostop\<close> for the descriptor of \<^verbatim>\<open>ttyfd\<close> and then closes that
  descriptor.  \<^verbatim>\<open>tcsetattr\<close> is called with the snapshot unless ignoring SIGTTOU fails
  at that moment, and when it succeeds the terminal has the snapshot again.
\<close>

theorem restore_runs_after_failed_init:
  assumes "atexit_fns w = []"
    and "Ev_atexit Termios_restore True \<in> set (new_events w (snd (sigquit_init P env w)))"
    and "fst (sigquit_init P env w) = - 1"
  shows "(sig_ign_fails (init_set env) \<or> tcsetattr_err (init_set env) \<noteq> None
          \<or> sig_restore_fails (init_set env))
       \<and> atexit_fns (after_signals P env sigs w) = [Termios_restore]
       \<and> lifetime P env sigs e w = termios_restore e (after_signals P env sigs w)
       \<and> termios_restore e (after_signals P env sigs w) =
           close_call (ttyfd_result env)
             (snd (tcsetattr_nostop e (ttyfd_result env) TCSANOW (live w (ttyfd_result env))
                (after_signals P env sigs w)))
       \<and> last (trace (lifetime P env sigs e w)) = Ev_close (ttyfd_result env)
       \<and> (\<not> sig_ign_fails e \<longrightarrow>
            Ev_tcsetattr (ttyfd_result env) TCSANOW (live w (ttyfd_result env)) (tcsetattr_err e)
              \<in> set (new_events (after_signals P env sigs w) (lifetime P env sigs e w)))
       \<and> (\<not> sig_ign_fails e \<and> tcsetattr_err e = None \<longrightarrow>
            live (lifetime P env sigs e w) (ttyfd_result env) = live w (ttyfd_result env))"
proof -
  let ?w2 = "after_signals P env sigs w"
  let ?fd = "ttyfd_result env"
  from assms(2) have c: "\<not> sigaction_fails env" "ttyfd_result env \<noteq> - 1"
    "tcgetattr_err env = None" "\<not> atexit_fails env"
    by (simp_all add: registered_iff)
  have "fst (sigquit_init P env w) = - 1 \<longleftrightarrow>
      sig_ign_fails (init_set env) \<or> tcsetattr_err (init_set env) \<noteq> None
      \<or> sig_restore_fails (init_set env)"
    using c by (simp add: init_defs split: option.splits)
  with assms(3) have why: "sig_ign_fails (init_set env) \<or> tcsetattr_err (init_set env) \<noteq> None
      \<or> sig_restore_fails (init_set env)"
    by simp
  have fns: "atexit_fns ?w2 = [Termios_restore]"
    using c assms(1) by (simp add: after_signals_def fold_handler_frame registered_state)
  have st: "fd_terminal ?w2 = ?fd" "tc_saved ?w2 = live w ?fd"
    using c by (simp_all add: after_signals_def fold_handler_frame sigquit_init_captured_state)
  have life: "lifetime P env sigs e w = termios_restore e ?w2"
    using fns by (simp add: lifetime_def exit_registered)
  have unf: "termios_restore e ?w2 =
      close_call ?fd (snd (tcsetattr_nostop e ?fd TCSANOW (live w ?fd) ?w2))"
    by (simp add: termios_restore_unfold st)
  have lst: "last (trace (lifetime P env sigs e w)) = Ev_close ?fd"
    by (simp add: life unf close_call_def log_event_def)
  have ev: "Ev_tcsetattr ?fd TCSANOW (live w ?fd) (tcsetattr_err e)
      \<in> set (new_events ?w2 (lifetime P env sigs e w))" if "\<not> sig_ign_fails e"
    using that
    by (simp add: life unf tcsetattr_nostop_def call_defs new_events_def split: option.splits)
  have lv: "live (lifetime P env sigs e w) ?fd = live w ?fd"
    if "\<not> sig_ign_fails e \<and> tcsetattr_err e = None"
    using that
    by (simp add: life unf tcsetattr_nostop_def call_defs)
  from why fns life unf lst ev lv show ?thesis
    by blast
qed

theorem restore_runs_after_failed_init_witness:
  "atexit_fns start_world = []
   \<and> Ev_atexit Termios_restore True
       \<in> set (new_events start_world (snd (sigquit_init linux einval_on_set start_world)))
   \<and> fst (sigquit_init linux einval_on_set start_world) = - 1
   \<and> atexit_fns (after_signals linux einval_on_set [] start_world) = [Termios_restore]
   \<and> last (trace (lifetime linux einval_on_set [] all_ok start_world)) = Ev_close 3
   \<and> Ev_tcsetattr 3 TCSANOW tty_attrs None
       \<in> set (new_events (after_signals linux einval_on_set [] start_world)
              (lifetime linux einval_on_set [] all_ok start_world))
   \<and> live (lifetime linux einval_on_set [] all_ok start_world) 3 = tty_attrs"
proof -
  have h3: "fst (sigquit_init linux einval_on_set start_world) = - 1"
    by (simp add: init_defs env_defs start_world_def)
  have fd: "ttyfd_result einval_on_set = 3"
    by (simp add: env_defs)
  have l: "live start_world 3 = tty_attrs"
    by (simp add: start_world_def)
  have ok: "\<not> sig_ign_fails all_ok"
    by (simp add: env_defs)
  have te: "tcsetattr_err all_ok = None"
    by (simp add: env_defs)
  show ?thesis
    using start_world_fresh einval_registered h3 ok
      restore_runs_after_failed_init [OF start_world_fresh einval_registered h3, of "[]" all_ok,
        unfolded fd l te]
    by blast
qed

end
